theory Spec2Isabelle
  imports Main
begin

section \<open>Python values\<close>

text \<open>
  The fragment of Python's object universe that the three modules manipulate. A
  \<open>PyObject n\<close> is an opaque object created by \<^verbatim>\<open>object()\<close>, told apart from every
  other object by its identity \<open>n\<close>; a \<open>PyList\<close> stands for the unhashable (mutable)
  containers. On this fragment Python's value equality \<^verbatim>\<open>==\<close> is HOL equality.
\<close>

datatype pyval =
    PyNone
  | PyInt int
  | PyStr string
  | PyTuple "pyval list"
  | PyList "pyval list"
  | PyObject nat

text \<open>
  \<^verbatim>\<open>hash(x)\<close> raises \<^verbatim>\<open>TypeError\<close> on a list and on a tuple that holds an unhashable
  item; every other value of the fragment is hashable.
\<close>

fun hashable :: "pyval \<Rightarrow> bool" where
  "hashable (PyList xs) = False"
| "hashable (PyTuple xs) = (\<forall>x \<in> set xs. hashable x)"
| "hashable PyNone = True"
| "hashable (PyInt i) = True"
| "hashable (PyStr s) = True"
| "hashable (PyObject n) = True"

text \<open>
  An exception object, with its identity. \<^verbatim>\<open>except Exception\<close> catches the instances
  of \<^verbatim>\<open>Exception\<close> only; \<open>BaseExceptionInst\<close> stands for the instances of
  \<^verbatim>\<open>BaseException\<close> that are not (\<^verbatim>\<open>KeyboardInterrupt\<close>, \<^verbatim>\<open>SystemExit\<close>).
\<close>

datatype pyexc = ExceptionInst nat | BaseExceptionInst nat

fun is_Exception :: "pyexc \<Rightarrow> bool" where
  "is_Exception (ExceptionInst n) = True"
| "is_Exception (BaseExceptionInst n) = False"

section \<open>The memoizing call cache: \<^verbatim>\<open>beartype/_util/cache/utilcachecall.py\<close>\<close>

text \<open>
  The three sentinels are three distinct \<^verbatim>\<open>object()\<close>s. \<open>SENTINEL\<close> is the placeholder
  of \<^verbatim>\<open>beartype._util.utilobj\<close>; the other two are the one-item tuples of the module,
  written here as the item lists that tuple concatenation appends.
\<close>

definition SENTINEL :: pyval where
  "SENTINEL = PyObject 0"

definition SENTINEL_KWARGS_KEYS :: "pyval list" where
  "SENTINEL_KWARGS_KEYS = [PyObject 1]"

definition SENTINEL_KWARGS_VALUES :: "pyval list" where
  "SENTINEL_KWARGS_VALUES = [PyObject 2]"

text \<open>
  Keyword arguments are a \<^verbatim>\<open>dict\<close> in the order the call passed them: an association
  list from names to values.
\<close>

type_synonym kwargs = "(string \<times> pyval) list"

text \<open>
  The flattening of lines 240 to 255: with keyword arguments, the positional arguments,
  a sentinel, the names, a sentinel and the values in one tuple; with exactly one
  positional argument and no keyword argument, that argument itself; otherwise the tuple
  of positional arguments as it is.
\<close>

definition params_flat :: "pyval list \<Rightarrow> kwargs \<Rightarrow> pyval" where
  "params_flat args kw =
     (if kw \<noteq> [] then
        PyTuple (args @ SENTINEL_KWARGS_KEYS @ map (\<lambda>p. PyStr (fst p)) kw @
                 SENTINEL_KWARGS_VALUES @ map snd kw)
      else if length args = 1 then hd args
      else PyTuple args)"

text \<open>
  What a call of the decorated callable does: it returns a value or raises, and it may
  change the world \<open>'w\<close> around it (so that a second call is observable and may raise a
  different exception object than the first).
\<close>

datatype func_result = FReturn pyval | FRaise pyexc

type_synonym 'w pyfunc = "'w \<Rightarrow> pyval list \<Rightarrow> kwargs \<Rightarrow> func_result \<times> 'w"

text \<open>
  The state the closure \<^verbatim>\<open>_callable_cached\<close> works on: its two dictionaries and the world
  of the decorated callable. \<open>func_calls\<close> is a ghost counter of the calls of the decorated
  callable; nothing reads it.
\<close>

record 'w cache_state =
  params_flat_to_return_value :: "pyval \<rightharpoonup> pyval"
  params_flat_to_exception :: "pyval \<rightharpoonup> pyexc"
  func_world :: 'w
  func_calls :: nat

datatype outcome = Returned pyval | Raised pyexc | RaisedTypeError

text \<open>\<^verbatim>\<open>d.get(key, default)\<close>.\<close>

definition dict_get :: "('k \<rightharpoonup> 'v) \<Rightarrow> 'k \<Rightarrow> 'v \<Rightarrow> 'v" where
  "dict_get d k dflt = (case d k of None \<Rightarrow> dflt | Some v \<Rightarrow> v)"

text \<open>
  One call of the wrapper, lines 240 to 299. The first dictionary lookup hashes the key
  and raises \<^verbatim>\<open>TypeError\<close> when it is unhashable. The exception dictionary only ever
  holds exception objects, none of which is \<open>SENTINEL\<close>, so its lookup with default
  \<open>SENTINEL\<close> is a lookup that may find nothing; the return-value dictionary may hold any
  value, so its lookup is compared with \<open>SENTINEL\<close> as the source does.
\<close>

definition callable_cached_call ::
  "'w pyfunc \<Rightarrow> 'w cache_state \<Rightarrow> pyval list \<Rightarrow> kwargs \<Rightarrow> outcome \<times> 'w cache_state" where
  "callable_cached_call func st args kw =
     (let pf = params_flat args kw in
      if \<not> hashable pf then (RaisedTypeError, st)
      else case params_flat_to_exception st pf of
        Some exception \<Rightarrow> (Raised exception, st)
      | None \<Rightarrow>
          let return_value = dict_get (params_flat_to_return_value st) pf SENTINEL in
          if return_value \<noteq> SENTINEL then (Returned return_value, st)
          else case func (func_world st) args kw of
            (FReturn v, w) \<Rightarrow>
              (Returned v,
               st\<lparr>params_flat_to_return_value := (params_flat_to_return_value st)(pf \<mapsto> v),
                  func_world := w, func_calls := Suc (func_calls st)\<rparr>)
          | (FRaise e, w) \<Rightarrow>
              if is_Exception e then
                (Raised e,
                 st\<lparr>params_flat_to_exception := (params_flat_to_exception st)(pf \<mapsto> e),
                    func_world := w, func_calls := Suc (func_calls st)\<rparr>)
              else
                (Raised e, st\<lparr>func_world := w, func_calls := Suc (func_calls st)\<rparr>))"


text \<open>The state of a freshly decorated callable: both dictionaries empty.\<close>

definition cache_init :: "'w \<Rightarrow> 'w cache_state" where
  "cache_init w =
     \<lparr>params_flat_to_return_value = Map.empty, params_flat_to_exception = Map.empty,
      func_world = w, func_calls = 0\<rparr>"

section \<open>Builtins on strings\<close>

text \<open>The decimal text of a natural number, as \<^verbatim>\<open>'{}'.format(n)\<close> writes it.\<close>

fun str_of_nat :: "nat \<Rightarrow> string" where
  "str_of_nat n =
     (if n < 10 then [''0123456789'' ! n]
      else str_of_nat (n div 10) @ [''0123456789'' ! (n mod 10)])"

declare str_of_nat.simps [simp del]

text \<open>
  \<^verbatim>\<open>s.replace(old, new)\<close>: every occurrence of \<open>old\<close>, from the left and without overlap;
  an empty \<open>old\<close> matches before every character and at the end.
\<close>

fun str_replace :: "string \<Rightarrow> string \<Rightarrow> string \<Rightarrow> string" where
  "str_replace old new [] = (if old = [] then new else [])"
| "str_replace old new (c # cs) =
     (if old = [] then new @ c # str_replace old new cs
      else if take (length old) (c # cs) = old
        then new @ str_replace old new (drop (length old) (c # cs))
      else c # str_replace old new cs)"

declare str_replace.simps [simp del]

text \<open>\<^verbatim>\<open>sub in s\<close> on strings.\<close>

fun str_contains :: "string \<Rightarrow> string \<Rightarrow> bool" where
  "str_contains sub [] = (sub = [])"
| "str_contains sub (c # cs) = (take (length sub) (c # cs) = sub \<or> str_contains sub cs)"

section \<open>Errors\<close>

text \<open>
  The exceptions of \<^verbatim>\<open>beartype.roar\<close> that the scope utilities and the code generator
  raise, and the builtin ones an assertion or an index out of range raises. The one
  exception whose message a property reads carries it.
\<close>

datatype error =
    BeartypeDecorHintNonpepException
  | BeartypeDecorHintPep3119Exception
  | BeartypeUtilCallableException
  | BeartypeDecorHintForwardRefException
  | BeartypeDecorHintPepException string
  | BeartypeDecorHintPepUnsupportedException
  | AssertionError
  | IndexError
  | FormatError

section \<open>The scope registry: \<^verbatim>\<open>beartype/_check/code/_codescope.py\<close>\<close>

subsection \<open>Classes, tuples of classes and scopes\<close>

text \<open>
  What the registry is told about an object passed as a class. A builtin type passes every
  test \<^verbatim>\<open>isinstance\<close> makes; \<open>PepClass\<close> is an isinstanceable class that is also a
  PEP-compliant hint (a user-defined generic); \<open>NotIsinstanceable\<close> is an object that is
  not a class, or a class whose metaclass refuses \<^verbatim>\<open>isinstance\<close>.
\<close>

datatype kind = BuiltinType | PlainType | PepClass | NotIsinstanceable

record pycls =
  cls_id :: nat
  cls_basename :: string
  cls_kind :: kind

text \<open>
  An object the registry binds to a name: a class, or a tuple of classes with the identity
  of the tuple object. A scope also binds the beartypistry singleton itself.
\<close>

datatype obj = TypeObj pycls | TupleObj nat "pycls list"

datatype scope_value = Attr obj | Typistry

fun obj_id :: "obj \<Rightarrow> nat" where
  "obj_id (TypeObj c) = cls_id c"
| "obj_id (TupleObj i cs) = i"

text \<open>
  The constants and builtins the module imports: the beartypistry key prefix, the name of
  the beartypistry parameter, the two halves of the relative forward reference
  placeholder, the name \<^verbatim>\<open>add_func_scope_attr\<close> synthesizes from an object identifier,
  \<^verbatim>\<open>hash\<close> on a tuple of classes, the decimal text of an integer in an f-string, the
  order in which \<^verbatim>\<open>tuple(set(t))\<close> lists the items of \<open>t\<close>, and the expression
  \<^verbatim>\<open>get_hint_forwardref_code\<close> builds for a qualified classname.
\<close>

record scope_env =
  TYPISTRY_HINT_NAME_TUPLE_PREFIX :: string
  ARG_NAME_TYPISTRY :: string
  CODE_HINT_REF_TYPE_BASENAME_PLACEHOLDER_PREFIX :: string
  CODE_HINT_REF_TYPE_BASENAME_PLACEHOLDER_SUFFIX :: string
  attr_name_of_id :: "nat \<Rightarrow> string"
  hash_types :: "pycls list \<Rightarrow> int"
  str_of_hash :: "int \<Rightarrow> string"
  tuple_of_set :: "pycls list \<Rightarrow> pycls list"
  get_hint_forwardref_code :: "string \<Rightarrow> string"

text \<open>
  The mutable objects a call works on: the scope dictionary passed to it, the entries of
  the process-wide beartypistry under tuple names (each a tuple object, with its identity
  and items), the sets of relative forward references (a store of set objects by
  address, since the caller keeps a reference to the set it passes), and the next free
  object identity, taken by every tuple or set the call creates.
\<close>

record scope_state =
  func_scope :: "string \<rightharpoonup> scope_value"
  bear_typistry :: "string \<rightharpoonup> nat \<times> pycls list"
  set_store :: "nat \<Rightarrow> string set"
  next_id :: nat

subsection \<open>Helpers imported from other modules\<close>

text \<open>
  Modelled from the spec: \<^verbatim>\<open>die_unless_type_isinstanceable\<close>
  (\<^verbatim>\<open>beartype._util.cls.pep.utilpep3119\<close>), which raises unless the object is usable as
  the second argument of \<^verbatim>\<open>isinstance\<close>.
\<close>

definition is_type_isinstanceable :: "pycls \<Rightarrow> bool" where
  "is_type_isinstanceable cls \<longleftrightarrow> cls_kind cls \<noteq> NotIsinstanceable"

text \<open>
  Modelled from the spec: \<^verbatim>\<open>die_unless_hint_nonpep_type\<close>
  (\<^verbatim>\<open>beartype._util.hint.nonpep.utilnonpeptest\<close>), which raises unless the object is an
  isinstanceable class that is not a PEP-compliant hint.
\<close>

definition is_hint_nonpep_type :: "pycls \<Rightarrow> bool" where
  "is_hint_nonpep_type cls \<longleftrightarrow> cls_kind cls = BuiltinType \<or> cls_kind cls = PlainType"

text \<open>
  Modelled from the spec: \<^verbatim>\<open>is_type_builtin\<close> (\<^verbatim>\<open>beartype._util.cls.utilclstest\<close>), true
  of the globally accessible builtin types, which need no import.
\<close>

definition is_type_builtin :: "pycls \<Rightarrow> bool" where
  "is_type_builtin cls \<longleftrightarrow> cls_kind cls = BuiltinType"

text \<open>
  Modelled from the spec: \<^verbatim>\<open>get_object_type_basename\<close> (\<^verbatim>\<open>beartype._util.utilobject\<close>),
  the unqualified name of a class.
\<close>

definition get_object_type_basename :: "pycls \<Rightarrow> string" where
  "get_object_type_basename cls = cls_basename cls"

text \<open>
  Modelled from the spec: \<^verbatim>\<open>add_func_scope_attr\<close> (\<^verbatim>\<open>beartype._util.func.utilfuncscope\<close>).
  It synthesizes a name from the identifier of the object, raises when the scope binds
  that name to another object, and otherwise binds the name to the object and returns it.
\<close>

definition add_func_scope_attr ::
  "scope_env \<Rightarrow> obj \<Rightarrow> scope_state \<Rightarrow> (error + string) \<times> scope_state" where
  "add_func_scope_attr env attr st =
     (let attr_name = attr_name_of_id env (obj_id attr) in
      case func_scope st attr_name of
        None \<Rightarrow> (Inr attr_name, st\<lparr>func_scope := (func_scope st)(attr_name \<mapsto> Attr attr)\<rparr>)
      | Some prior \<Rightarrow>
          if prior = Attr attr
          then (Inr attr_name, st\<lparr>func_scope := (func_scope st)(attr_name \<mapsto> Attr attr)\<rparr>)
          else (Inl BeartypeUtilCallableException, st))"

subsection \<open>The adders\<close>

text \<open>Lines 230 to 244.\<close>

definition add_func_scope_type ::
  "scope_env \<Rightarrow> pycls \<Rightarrow> scope_state \<Rightarrow> (error + string) \<times> scope_state" where
  "add_func_scope_type env cls st =
     (if \<not> is_type_isinstanceable cls then (Inl BeartypeDecorHintPep3119Exception, st)
      else if is_type_builtin cls then (Inr (get_object_type_basename cls), st)
      else add_func_scope_attr env (TypeObj cls) st)"

text \<open>
  The collection passed as \<^verbatim>\<open>types\<close>: a tuple object with its identity and items, a set
  (given by the order in which it iterates), or any other object.
\<close>

datatype types_arg = TupleArg nat "pycls list" | SetArg "pycls list" | NeitherArg

fun types_items :: "types_arg \<Rightarrow> pycls list" where
  "types_items (TupleArg i cs) = cs"
| "types_items (SetArg cs) = cs"
| "types_items NeitherArg = []"

text \<open>
  Lines 393 to 404: a set becomes a new tuple of its items; a tuple not promised to be
  duplicate-free becomes the new tuple \<^verbatim>\<open>tuple(set(types))\<close>; a tuple promised to be
  duplicate-free is kept, the very object. Every new tuple takes a fresh identity.
\<close>

fun canonical_tuple ::
  "scope_env \<Rightarrow> types_arg \<Rightarrow> bool \<Rightarrow> scope_state \<Rightarrow> obj \<times> scope_state" where
  "canonical_tuple env (SetArg cs) is_unique st =
     (TupleObj (next_id st) cs, st\<lparr>next_id := Suc (next_id st)\<rparr>)"
| "canonical_tuple env (TupleArg i cs) is_unique st =
     (if \<not> is_unique
      then (TupleObj (next_id st) (tuple_of_set env cs), st\<lparr>next_id := Suc (next_id st)\<rparr>)
      else (TupleObj i cs, st))"
| "canonical_tuple env NeitherArg is_unique st = (TupleObj (next_id st) [], st)"

fun obj_items :: "obj \<Rightarrow> pycls list" where
  "obj_items (TupleObj i cs) = cs"
| "obj_items (TypeObj c) = [c]"

text \<open>Line 407: the beartypistry key of a tuple, its hash after the prefix.\<close>

definition tuple_types_name :: "scope_env \<Rightarrow> obj \<Rightarrow> string" where
  "tuple_types_name env types =
     TYPISTRY_HINT_NAME_TUPLE_PREFIX env @ str_of_hash env (hash_types env (obj_items types))"

text \<open>Lines 360 to 420.\<close>

definition add_func_scope_types ::
  "scope_env \<Rightarrow> types_arg \<Rightarrow> bool \<Rightarrow> scope_state \<Rightarrow> (error + string) \<times> scope_state" where
  "add_func_scope_types env types is_unique st =
     (if types = NeitherArg then (Inl BeartypeDecorHintNonpepException, st)
      else if types_items types = [] then (Inl BeartypeDecorHintNonpepException, st)
      else if \<exists>cls \<in> set (types_items types). \<not> is_hint_nonpep_type cls
        then (Inl BeartypeDecorHintNonpepException, st)
      else if length (types_items types) = 1
        then add_func_scope_type env (hd (types_items types)) st
      else
        let (tup, st1) = canonical_tuple env types is_unique st;
            name = tuple_types_name env tup
        in case bear_typistry st1 name of
             None \<Rightarrow>
               add_func_scope_attr env tup
                 (st1\<lparr>bear_typistry :=
                       (bear_typistry st1)(name \<mapsto> (obj_id tup, obj_items tup))\<rparr>)
           | Some cached \<Rightarrow> add_func_scope_attr env (TupleObj (fst cached) (snd cached)) st1)"

text \<open>Lines 165 to 183.\<close>

datatype type_or_types = AType pycls | NotAType types_arg

fun add_func_scope_type_or_types ::
  "scope_env \<Rightarrow> type_or_types \<Rightarrow> scope_state \<Rightarrow> (error + string) \<times> scope_state" where
  "add_func_scope_type_or_types env (AType cls) st = add_func_scope_type env cls st"
| "add_func_scope_type_or_types env (NotAType types) st =
     add_func_scope_types env types False st"

subsection \<open>Forward references\<close>

text \<open>
  The object passed as \<^verbatim>\<open>forwardref\<close>: a forward reference with the classname
  \<^verbatim>\<open>get_hint_pep484585_ref_name\<close> reads from it, or an object that
  \<^verbatim>\<open>die_unless_hint_pep484585_ref\<close> refuses.
\<close>

datatype forwardref = ForwardRef string | NotForwardRef

text \<open>
  Lines 483 to 536. \<^verbatim>\<open>forwardrefs_class_basename\<close> is \<^verbatim>\<open>None\<close> or the address of a set
  object in the store; the set the function creates takes the next free address.
\<close>

definition express_func_scope_type_forwardref ::
  "scope_env \<Rightarrow> forwardref \<Rightarrow> nat option \<Rightarrow> scope_state \<Rightarrow>
   (error + string \<times> nat option) \<times> scope_state" where
  "express_func_scope_type_forwardref env forwardref forwardrefs_class_basename st =
     (case forwardref of
        NotForwardRef \<Rightarrow> (Inl BeartypeDecorHintForwardRefException, st)
      | ForwardRef forwardref_classname \<Rightarrow>
          if CHR ''.'' \<in> set forwardref_classname then
            (Inr (get_hint_forwardref_code env forwardref_classname,
                  forwardrefs_class_basename),
             st\<lparr>func_scope := (func_scope st)(ARG_NAME_TYPISTRY env \<mapsto> Typistry)\<rparr>)
          else
            let (addr, st1) =
                  (case forwardrefs_class_basename of
                     None \<Rightarrow>
                       (next_id st,
                        st\<lparr>set_store := (set_store st)(next_id st := {}),
                           next_id := Suc (next_id st)\<rparr>)
                   | Some a \<Rightarrow> (a, st))
            in (Inr (CODE_HINT_REF_TYPE_BASENAME_PLACEHOLDER_PREFIX env @
                     forwardref_classname @
                     CODE_HINT_REF_TYPE_BASENAME_PLACEHOLDER_SUFFIX env,
                     Some addr),
                st1\<lparr>set_store :=
                      (set_store st1)(addr := insert forwardref_classname (set_store st1 addr))\<rparr>))"

section \<open>The code generator: \<^verbatim>\<open>beartype/_decor/_code/_pep/_pephint.py\<close>\<close>

subsection \<open>Hints\<close>

text \<open>
  The argumentless \<^verbatim>\<open>typing\<close> attribute of a PEP-compliant hint, as far as the generator
  asks about it: whether it is \<^verbatim>\<open>Union\<close>, a standard sequence or another attribute,
  whether \<^verbatim>\<open>die_unless_hint_pep_typing_attr_supported\<close> accepts it, and the origin type
  \<^verbatim>\<open>TYPING_ATTR_TO_TYPE_ORIGIN\<close> maps it to, if any.
\<close>

datatype attr_kind = UnionAttr | SequenceStandardAttr | OtherAttr

datatype typing_attr =
  TypingAttr (attr_kind: attr_kind) (attr_supported: bool) (attr_type_origin: "pycls option")

text \<open>
  A hint: PEP-compliant, with its attribute and its \<^verbatim>\<open>__args__\<close>; a class that is not
  PEP-compliant; or any other object.
\<close>

datatype hint =
    HintPep typing_attr "hint list"
  | HintType pycls
  | HintOther nat

fun is_hint_pep :: "hint \<Rightarrow> bool" where
  "is_hint_pep (HintPep a args) = True"
| "is_hint_pep (HintType c) = False"
| "is_hint_pep (HintOther n) = False"

subsection \<open>What the module imports\<close>

text \<open>
  The constants, code snippets and helpers the generator imports from modules that are
  not part of this development, as parameters: the capacity \<^verbatim>\<open>SIZE_BIG\<close> of a big fixed
  list, the cached exception placeholder, \<^verbatim>\<open>repr\<close> on hints, the ignorable hints,
  \<^verbatim>\<open>die_unless_hint_pep_supported\<close> as a test, the indentation and pith constants, each
  snippet with its \<^verbatim>\<open>format\<close> method as a function of the fields it is given, the
  deferred \<^verbatim>\<open>format(indent_curr=...)\<close> of a finished union snippet (which raises on a
  malformed template), the placeholder \<^verbatim>\<open>BeartypeData.get_next_pep_hint_placeholder\<close>
  returns for each value of its counter, the two beartypistry registrars (which raise on
  what they cannot register), and the order in which a Python set lists the items added
  to it in a given sequence.
\<close>

record pep_env =
  SIZE_BIG :: nat
  EXCEPTION_CACHED_PLACEHOLDER :: string
  hint_repr :: "hint \<Rightarrow> string"
  HINTS_IGNORABLE :: "hint set"
  is_hint_pep_supported :: "hint \<Rightarrow> bool"
  CODE_INDENT_1 :: string
  CODE_INDENT_2 :: string
  PEP_CODE_PITH_ROOT_EXPR :: string
  PEP_CODE_CHECK_HINT_ROOT_format :: "string \<Rightarrow> string"
  PEP_CODE_CHECK_HINT_NONPEP_TYPE_format :: "string \<Rightarrow> string \<Rightarrow> string"
  PEP_CODE_CHECK_HINT_SEQUENCE_STANDARD_format ::
    "string \<Rightarrow> string \<Rightarrow> string \<Rightarrow> string \<Rightarrow> string"
  PEP_CODE_CHECK_HINT_SEQUENCE_STANDARD_PITH_CHILD_EXPR_format :: "string \<Rightarrow> string"
  PEP_CODE_CHECK_HINT_UNION_PREFIX :: string
  PEP_CODE_CHECK_HINT_UNION_SUFFIX :: string
  PEP_CODE_CHECK_HINT_UNION_ARG_NONPEP_format :: "string \<Rightarrow> string \<Rightarrow> string"
  PEP_CODE_CHECK_HINT_UNION_ARG_PEP_format :: "string \<Rightarrow> string"
  format_indent_curr :: "string \<Rightarrow> string \<Rightarrow> error + string"
  pep_hint_placeholder :: "nat \<Rightarrow> string"
  register_typistry_type :: "pycls \<Rightarrow> error + string"
  register_typistry_tuple :: "hint list \<Rightarrow> bool \<Rightarrow> error + string"
  set_iter :: "hint list \<Rightarrow> hint list"

subsection \<open>The state of the breadth-first search\<close>

text \<open>The four items of the fixed list of metadata describing one hint to visit.\<close>

record hint_meta =
  meta_hint :: hint
  meta_placeholder :: string
  meta_pith_expr :: string
  meta_indent :: string

text \<open>
  The locals the loop carries from one iteration to the next and the two attributes of
  the \<^verbatim>\<open>BeartypeData\<close> object it changes: the fixed list \<^verbatim>\<open>hints_meta\<close> (\<open>None\<close> where
  nothing is stored), the indices of the current and the last hint in it, the code
  generated so far, the counter behind \<^verbatim>\<open>get_next_pep_hint_placeholder\<close>, and
  \<^verbatim>\<open>is_func_wrapper_needs_random_int\<close>.
\<close>

record bfs_state =
  hints_meta :: "hint_meta option list"
  hints_meta_index_curr :: nat
  hints_meta_index_last :: nat
  func_code :: string
  placeholder_counter :: nat
  is_func_wrapper_needs_random_int :: bool

text \<open>Line 652.\<close>

definition hint_root_label :: "pep_env \<Rightarrow> hint \<Rightarrow> string" where
  "hint_root_label env hint_root =
     EXCEPTION_CACHED_PLACEHOLDER env @ '' '' @ hint_repr env hint_root"

text \<open>The exception of lines 1103 to 1106 and 1246 to 1249.\<close>

definition capacity_error :: "pep_env \<Rightarrow> hint \<Rightarrow> error" where
  "capacity_error env hint_root =
     BeartypeDecorHintPepException
       (hint_root_label env hint_root @ '' contains more than '' @
        str_of_nat (SIZE_BIG env) @ '' '' @ [CHR 0x22] @ ''typing'' @ [CHR 0x22] @
        '' types.'')"

text \<open>
  \<^verbatim>\<open>hints_meta[hints_meta_index_last] = hint_child_meta\<close> after the increment of the index
  (lines 1156 to 1159 and 1274 to 1277): a fixed list raises \<^verbatim>\<open>IndexError\<close> past its
  length.
\<close>

definition enqueue_hint_meta :: "hint_meta \<Rightarrow> bfs_state \<Rightarrow> error + bfs_state" where
  "enqueue_hint_meta hint_child_meta st =
     (let last = Suc (hints_meta_index_last st) in
      if last < length (hints_meta st)
      then Inr (st\<lparr>hints_meta_index_last := last,
                   hints_meta := (hints_meta st)[last := Some hint_child_meta]\<rparr>)
      else Inl IndexError)"

subsection \<open>Unions\<close>

text \<open>
  Lines 960 to 1002: the unignorable arguments of the union, in the order of
  \<^verbatim>\<open>__args__\<close>, as the sequences of items added to the two sets: to the set of
  PEP-noncompliant arguments every such argument and the origin type of every
  PEP-compliant argument that has one, to the set of PEP-compliant arguments every such
  argument.
\<close>

fun union_childs_nonpep :: "pep_env \<Rightarrow> hint list \<Rightarrow> hint list" where
  "union_childs_nonpep env [] = []"
| "union_childs_nonpep env (hint_child # hint_childs) =
     (if hint_child \<in> HINTS_IGNORABLE env then union_childs_nonpep env hint_childs
      else case hint_child of
        HintPep a args \<Rightarrow>
          (case attr_type_origin a of
             None \<Rightarrow> union_childs_nonpep env hint_childs
           | Some origin \<Rightarrow> HintType origin # union_childs_nonpep env hint_childs)
      | _ \<Rightarrow> hint_child # union_childs_nonpep env hint_childs)"

fun union_childs_pep :: "pep_env \<Rightarrow> hint list \<Rightarrow> hint list" where
  "union_childs_pep env [] = []"
| "union_childs_pep env (hint_child # hint_childs) =
     (if hint_child \<notin> HINTS_IGNORABLE env \<and> is_hint_pep hint_child
      then hint_child # union_childs_pep env hint_childs
      else union_childs_pep env hint_childs)"

text \<open>
  Lines 1110 to 1167, the loop over the set of PEP-compliant arguments: each takes the
  next placeholder, is enqueued with the pith of the union and the child indentation, and
  appends its placeholder snippet to the code of the union.
\<close>

fun union_enqueue_childs ::
  "pep_env \<Rightarrow> string \<Rightarrow> string \<Rightarrow> hint list \<Rightarrow> string \<times> bfs_state \<Rightarrow>
   error + string \<times> bfs_state" where
  "union_enqueue_childs env pith_curr_expr indent_child [] acc = Inr acc"
| "union_enqueue_childs env pith_curr_expr indent_child (hint_child # rest) acc =
     (let func_curr_code = fst acc; st = snd acc;
          hint_child_placeholder = pep_hint_placeholder env (placeholder_counter st);
          st1 = st\<lparr>placeholder_counter := Suc (placeholder_counter st)\<rparr>
      in case enqueue_hint_meta
                \<lparr>meta_hint = hint_child, meta_placeholder = hint_child_placeholder,
                 meta_pith_expr = pith_curr_expr, meta_indent = indent_child\<rparr> st1 of
           Inl e \<Rightarrow> Inl e
         | Inr st2 \<Rightarrow>
             union_enqueue_childs env pith_curr_expr indent_child rest
               (func_curr_code @
                  PEP_CODE_CHECK_HINT_UNION_ARG_PEP_format env hint_child_placeholder,
                st2))"

text \<open>Lines 1015 to 1057: the one test against the tuple of the first set.\<close>

definition union_code_nonpep ::
  "pep_env \<Rightarrow> string \<Rightarrow> hint list \<Rightarrow> string \<Rightarrow> error + string" where
  "union_code_nonpep env pith_curr_expr hint_childs_nonpep func_curr_code =
     (if hint_childs_nonpep \<noteq> [] then
        case register_typistry_tuple env (set_iter env hint_childs_nonpep) True of
          Inl e \<Rightarrow> Inl e
        | Inr hint_curr_expr \<Rightarrow>
            Inr (func_curr_code @
                 PEP_CODE_CHECK_HINT_UNION_ARG_NONPEP_format env pith_curr_expr hint_curr_expr)
      else Inr func_curr_code)"

text \<open>
  Lines 1062 to 1167: the capacity test on the number of items of the second set, then the
  loop over that set.
\<close>

definition union_code_pep ::
  "pep_env \<Rightarrow> hint \<Rightarrow> string \<Rightarrow> string \<Rightarrow> hint list \<Rightarrow> string \<times> bfs_state \<Rightarrow>
   error + string \<times> bfs_state" where
  "union_code_pep env hint_root pith_curr_expr indent_child hint_childs_pep acc =
     (if hint_childs_pep \<noteq> [] then
        if hints_meta_index_last (snd acc) + length (remdups hint_childs_pep) \<ge> SIZE_BIG env
        then Inl (capacity_error env hint_root)
        else union_enqueue_childs env pith_curr_expr indent_child
               (set_iter env hint_childs_pep) acc
      else Inr acc)"

text \<open>
  Lines 1169 to 1185. The test \<^verbatim>\<open>func_curr_code is not PEP_CODE_CHECK_HINT_UNION_PREFIX\<close>
  compares objects; \<^verbatim>\<open>+=\<close> with a non-empty string makes a new string object and with
  an empty one keeps the object, so the test holds exactly when the value differs from
  the prefix.
\<close>

definition union_code_finish :: "pep_env \<Rightarrow> string \<Rightarrow> string \<Rightarrow> error + string" where
  "union_code_finish env indent_curr func_curr_code =
     (if func_curr_code \<noteq> PEP_CODE_CHECK_HINT_UNION_PREFIX env then
        format_indent_curr env
          (take (length func_curr_code - 3) func_curr_code @
           PEP_CODE_CHECK_HINT_UNION_SUFFIX env)
          indent_curr
      else Inr func_curr_code)"

text \<open>Lines 920 to 1185: the code of a union and the state after its arguments are enqueued.\<close>

definition visit_union ::
  "pep_env \<Rightarrow> hint \<Rightarrow> hint_meta \<Rightarrow> hint list \<Rightarrow> bfs_state \<Rightarrow> error + string \<times> bfs_state" where
  "visit_union env hint_root hint_curr_meta hint_childs st =
     (if hint_childs = [] then Inl AssertionError
      else
        let pith_curr_expr = meta_pith_expr hint_curr_meta;
            indent_curr = meta_indent hint_curr_meta;
            indent_child = indent_curr @ CODE_INDENT_1 env
        in case union_code_nonpep env pith_curr_expr (union_childs_nonpep env hint_childs)
                  (PEP_CODE_CHECK_HINT_UNION_PREFIX env) of
             Inl e \<Rightarrow> Inl e
           | Inr code1 \<Rightarrow>
               (case union_code_pep env hint_root pith_curr_expr indent_child
                       (union_childs_pep env hint_childs) (code1, st) of
                  Inl e \<Rightarrow> Inl e
                | Inr (code2, st2) \<Rightarrow>
                    (case union_code_finish env indent_curr code2 of
                       Inl e \<Rightarrow> Inl e
                     | Inr func_curr_code \<Rightarrow> Inr (func_curr_code, st2))))"

subsection \<open>Standard sequences, other attributes and classes\<close>

text \<open>\<^verbatim>\<open>get_hint_type_origin\<close> behind the assertion that the attribute has an origin type.\<close>

definition register_type_origin :: "pep_env \<Rightarrow> typing_attr \<Rightarrow> error + string" where
  "register_type_origin env hint_curr_attr =
     (case attr_type_origin hint_curr_attr of
        None \<Rightarrow> Inl AssertionError
      | Some origin \<Rightarrow> register_typistry_type env origin)"

text \<open>Lines 1190 to 1303.\<close>

definition visit_sequence ::
  "pep_env \<Rightarrow> hint \<Rightarrow> hint_meta \<Rightarrow> typing_attr \<Rightarrow> hint list \<Rightarrow> bfs_state \<Rightarrow>
   error + string \<times> bfs_state" where
  "visit_sequence env hint_root hint_curr_meta hint_curr_attr hint_childs st =
     (let pith_curr_expr = meta_pith_expr hint_curr_meta;
          indent_curr = meta_indent hint_curr_meta;
          indent_child = indent_curr @ CODE_INDENT_1 env
      in if attr_type_origin hint_curr_attr = None then Inl AssertionError
         else if length hint_childs \<noteq> 1 then Inl AssertionError
         else
           let hint_child = hd hint_childs in
           case register_type_origin env hint_curr_attr of
             Inl e \<Rightarrow> Inl e
           | Inr hint_curr_expr \<Rightarrow>
               if hint_child \<notin> HINTS_IGNORABLE env then
                 let st1 = st\<lparr>is_func_wrapper_needs_random_int := True\<rparr> in
                 if hints_meta_index_last st1 + 1 \<ge> SIZE_BIG env
                 then Inl (capacity_error env hint_root)
                 else
                   let hint_child_placeholder =
                         pep_hint_placeholder env (placeholder_counter st1);
                       st2 = st1\<lparr>placeholder_counter := Suc (placeholder_counter st1)\<rparr>
                   in case enqueue_hint_meta
                             \<lparr>meta_hint = hint_child,
                              meta_placeholder = hint_child_placeholder,
                              meta_pith_expr =
                                PEP_CODE_CHECK_HINT_SEQUENCE_STANDARD_PITH_CHILD_EXPR_format env
                                  pith_curr_expr,
                              meta_indent = indent_child\<rparr> st2 of
                        Inl e \<Rightarrow> Inl e
                      | Inr st3 \<Rightarrow>
                          Inr (PEP_CODE_CHECK_HINT_SEQUENCE_STANDARD_format env indent_curr
                                 pith_curr_expr hint_curr_expr hint_child_placeholder,
                               st3)
               else
                 Inr (PEP_CODE_CHECK_HINT_NONPEP_TYPE_format env pith_curr_expr hint_curr_expr,
                      st))"

text \<open>Lines 1382 to 1408.\<close>

definition visit_fallback ::
  "pep_env \<Rightarrow> hint_meta \<Rightarrow> typing_attr \<Rightarrow> bfs_state \<Rightarrow> error + string \<times> bfs_state" where
  "visit_fallback env hint_curr_meta hint_curr_attr st =
     (case register_type_origin env hint_curr_attr of
        Inl e \<Rightarrow> Inl e
      | Inr hint_curr_expr \<Rightarrow>
          Inr (PEP_CODE_CHECK_HINT_NONPEP_TYPE_format env (meta_pith_expr hint_curr_meta)
                 hint_curr_expr,
               st))"

text \<open>Lines 1431 to 1446.\<close>

definition visit_class ::
  "pep_env \<Rightarrow> hint_meta \<Rightarrow> pycls \<Rightarrow> bfs_state \<Rightarrow> error + string \<times> bfs_state" where
  "visit_class env hint_curr_meta cls st =
     (case register_typistry_type env cls of
        Inl e \<Rightarrow> Inl e
      | Inr hint_curr_expr \<Rightarrow>
          Inr (PEP_CODE_CHECK_HINT_NONPEP_TYPE_format env (meta_pith_expr hint_curr_meta)
                 hint_curr_expr,
               st))"

text \<open>The exception of lines 1461 to 1464.\<close>

definition not_pep_error :: "pep_env \<Rightarrow> hint \<Rightarrow> hint \<Rightarrow> error" where
  "not_pep_error env hint_root hint_curr =
     BeartypeDecorHintPepException
       (hint_root_label env hint_root @ '' child '' @ hint_repr env hint_curr @
        '' not PEP-compliant (i.e., neither '' @ [CHR 0x22] @ ''typing'' @ [CHR 0x22] @
        '' object nor non-'' @ [CHR 0x22] @ ''typing'' @ [CHR 0x22] @ '' class).'')"

subsection \<open>One iteration of the search\<close>

text \<open>
  Lines 816 to 1464: the code checking the current pith against the current hint, by the
  kind of the hint, and the state after its children are enqueued.
\<close>

definition visit_hint ::
  "pep_env \<Rightarrow> hint \<Rightarrow> hint_meta \<Rightarrow> bfs_state \<Rightarrow> error + string \<times> bfs_state" where
  "visit_hint env hint_root hint_curr_meta st =
     (case meta_hint hint_curr_meta of
        HintPep hint_curr_attr hint_childs \<Rightarrow>
          if \<not> is_hint_pep_supported env (meta_hint hint_curr_meta)
            then Inl BeartypeDecorHintPepUnsupportedException
          else if meta_hint hint_curr_meta \<in> HINTS_IGNORABLE env then Inl AssertionError
          else if \<not> attr_supported hint_curr_attr
            then Inl BeartypeDecorHintPepUnsupportedException
          else if attr_kind hint_curr_attr = UnionAttr
            then visit_union env hint_root hint_curr_meta hint_childs st
          else if attr_kind hint_curr_attr = SequenceStandardAttr
            then visit_sequence env hint_root hint_curr_meta hint_curr_attr hint_childs st
          else visit_fallback env hint_curr_meta hint_curr_attr st
      | HintType cls \<Rightarrow> visit_class env hint_curr_meta cls st
      | HintOther n \<Rightarrow> Inl (not_pep_error env hint_root (meta_hint hint_curr_meta)))"

text \<open>
  Lines 797 to 1480, the body of the \<^verbatim>\<open>while\<close> loop: read the metadata of the current
  hint, generate its code, replace its placeholder by that code, clear its slot and move
  to the next index.
\<close>

definition visit_step :: "pep_env \<Rightarrow> hint \<Rightarrow> bfs_state \<Rightarrow> error + bfs_state" where
  "visit_step env hint_root st =
     (if hints_meta_index_curr st \<ge> length (hints_meta st) then Inl IndexError
      else case hints_meta st ! hints_meta_index_curr st of
        None \<Rightarrow> Inl AssertionError
      | Some hint_curr_meta \<Rightarrow>
          (case visit_hint env hint_root hint_curr_meta st of
             Inl e \<Rightarrow> Inl e
           | Inr (func_curr_code, st1) \<Rightarrow>
               Inr (st1\<lparr>func_code :=
                          str_replace (meta_placeholder hint_curr_meta) func_curr_code
                            (func_code st1),
                        hints_meta := (hints_meta st1)[hints_meta_index_curr st1 := None],
                        hints_meta_index_curr := Suc (hints_meta_index_curr st1)\<rparr>)))"

subsection \<open>The search terminates\<close>

text \<open>
  One iteration moves the current index by one and leaves the last index either where it
  was or inside the fixed list, whose length never changes: the bound the termination of
  the loop rests on.
\<close>

definition step_bound :: "bfs_state \<Rightarrow> bfs_state \<Rightarrow> bool" where
  "step_bound st st' \<longleftrightarrow>
     length (hints_meta st') = length (hints_meta st) \<and>
     hints_meta_index_curr st' = hints_meta_index_curr st \<and>
     (hints_meta_index_last st' = hints_meta_index_last st \<or>
      hints_meta_index_last st' < length (hints_meta st))"

lemma step_bound_refl: "step_bound st st"
  by (simp add: step_bound_def)

lemma enqueue_hint_meta_bound:
  "enqueue_hint_meta m st = Inr st' \<Longrightarrow>
     length (hints_meta st') = length (hints_meta st) \<and>
     hints_meta_index_curr st' = hints_meta_index_curr st \<and>
     hints_meta_index_last st' = Suc (hints_meta_index_last st) \<and>
     hints_meta_index_last st' < length (hints_meta st)"
  by (auto simp: enqueue_hint_meta_def Let_def split: if_splits)

lemma union_enqueue_childs_bound:
  "union_enqueue_childs env pith ind cs acc = Inr acc' \<Longrightarrow> step_bound (snd acc) (snd acc')"
proof (induction cs arbitrary: acc)
  case Nil
  then show ?case by (simp add: step_bound_def)
next
  case (Cons c cs)
  then show ?case
    by (fastforce simp: Let_def step_bound_def split: sum.splits
        dest!: enqueue_hint_meta_bound)
qed

lemma visit_union_bound:
  "visit_union env root m cs st = Inr (code, st') \<Longrightarrow> step_bound st st'"
  by (auto simp: visit_union_def union_code_pep_def Let_def step_bound_refl
      split: if_splits sum.splits prod.splits dest!: union_enqueue_childs_bound)

lemma visit_sequence_bound:
  "visit_sequence env root m a cs st = Inr (code, st') \<Longrightarrow> step_bound st st'"
  by (auto simp: visit_sequence_def Let_def step_bound_def
      split: if_splits sum.splits prod.splits dest!: enqueue_hint_meta_bound)

lemma visit_hint_bound:
  "visit_hint env root m st = Inr (code, st') \<Longrightarrow> step_bound st st'"
  by (auto simp: visit_hint_def visit_fallback_def visit_class_def step_bound_refl
      split: hint.splits if_splits sum.splits
      dest: visit_union_bound visit_sequence_bound)

lemma visit_step_bound:
  assumes "visit_step env root st = Inr st'"
  shows "length (hints_meta st') = length (hints_meta st)"
    and "hints_meta_index_curr st' = Suc (hints_meta_index_curr st)"
    and "hints_meta_index_last st' = hints_meta_index_last st \<or>
         hints_meta_index_last st' < length (hints_meta st)"
  using assms
  by (auto simp: visit_step_def step_bound_def
      split: if_splits option.splits sum.splits prod.splits dest!: visit_hint_bound)

text \<open>Lines 795 to 1480: the \<^verbatim>\<open>while\<close> loop.\<close>

function bfs_loop :: "pep_env \<Rightarrow> hint \<Rightarrow> bfs_state \<Rightarrow> error + bfs_state" where
  "bfs_loop env hint_root st =
     (if hints_meta_index_curr st \<le> hints_meta_index_last st then
        case visit_step env hint_root st of
          Inl e \<Rightarrow> Inl e
        | Inr st' \<Rightarrow> bfs_loop env hint_root st'
      else Inr st)"
  by pat_completeness auto
termination
proof (relation "measure (\<lambda>(env, hint_root, st).
    Suc (max (hints_meta_index_last st) (length (hints_meta st))) - hints_meta_index_curr st)")
  show "wf (measure (\<lambda>(env, hint_root, st).
    Suc (max (hints_meta_index_last st) (length (hints_meta st))) - hints_meta_index_curr st))"
    by simp
next
  fix env :: pep_env and hint_root :: hint and st st' :: bfs_state
  assume le: "hints_meta_index_curr st \<le> hints_meta_index_last st"
    and step: "visit_step env hint_root st = Inr st'"
  from visit_step_bound [OF step] le
  show "((env, hint_root, st'), (env, hint_root, st)) \<in> measure (\<lambda>(env, hint_root, st).
    Suc (max (hints_meta_index_last st) (length (hints_meta st))) - hints_meta_index_curr st)"
    by auto
qed

declare bfs_loop.simps [simp del]

subsection \<open>The generator\<close>

text \<open>The two attributes of the \<^verbatim>\<open>BeartypeData\<close> object that the generator reads and writes.\<close>

record beartype_data =
  pep_hint_placeholder_id :: nat
  needs_random_int :: bool

text \<open>The exception of lines 1494 to 1496.\<close>

definition not_type_checked_error :: "pep_env \<Rightarrow> hint \<Rightarrow> error" where
  "not_type_checked_error env hint_root =
     BeartypeDecorHintPepException (hint_root_label env hint_root @ '' not type-checked.'')"

text \<open>
  Lines 714 to 788: the state in which the loop starts. The big fixed list holds the
  metadata of the root hint at index 0, under the first placeholder, and the code is the
  root snippet around that placeholder.
\<close>

definition bfs_init :: "pep_env \<Rightarrow> beartype_data \<Rightarrow> hint \<Rightarrow> bfs_state" where
  "bfs_init env data hint_root =
     (let hint_child_placeholder = pep_hint_placeholder env (pep_hint_placeholder_id data) in
      \<lparr>hints_meta =
         (replicate (SIZE_BIG env) None)
           [0 := Some \<lparr>meta_hint = hint_root, meta_placeholder = hint_child_placeholder,
                       meta_pith_expr = PEP_CODE_PITH_ROOT_EXPR env,
                       meta_indent = CODE_INDENT_2 env\<rparr>],
       hints_meta_index_curr = 0,
       hints_meta_index_last = 0,
       func_code = PEP_CODE_CHECK_HINT_ROOT_format env hint_child_placeholder,
       placeholder_counter = Suc (pep_hint_placeholder_id data),
       is_func_wrapper_needs_random_int = needs_random_int data\<rparr>)"

text \<open>
  Lines 610 to 1500, without the memoization of the decorator. The result is the code and
  the \<^verbatim>\<open>BeartypeData\<close> attributes after the call, or the exception raised.
\<close>

definition pep_code_check_hint ::
  "pep_env \<Rightarrow> beartype_data \<Rightarrow> hint \<Rightarrow> error + string \<times> beartype_data" where
  "pep_code_check_hint env data hint_root =
     (if SIZE_BIG env = 0 then Inl IndexError
      else case bfs_loop env hint_root (bfs_init env data hint_root) of
        Inl e \<Rightarrow> Inl e
      | Inr st \<Rightarrow>
          if func_code st = func_code (bfs_init env data hint_root)
          then Inl (not_type_checked_error env hint_root)
          else Inr (func_code st,
                    \<lparr>pep_hint_placeholder_id = placeholder_counter st,
                     needs_random_int = is_func_wrapper_needs_random_int st\<rparr>))"

section \<open>Properties of the memoizing call cache\<close>

subsection \<open>What a call leaves in the dictionaries\<close>





definition pair_or_default :: "nat pyfunc" where
  "pair_or_default w args kw =
     (if kw = [] \<and> length args = 1 then (FReturn (PyTuple [hd args, PyNone]), Suc w)
      else if kw = [] \<and> length args = 2 then (FReturn (PyTuple args), Suc w)
      else (FRaise (ExceptionInst w), Suc w))"









subsection \<open>Repeated calls\<close>




subsection \<open>Keys of distinct calls\<close>

text \<open>
  Claim C3. The key is not injective over call shapes: the call \<^verbatim>\<open>f((1, 2))\<close>, with one
  positional argument that is a tuple, and the call \<^verbatim>\<open>f(1, 2)\<close>, with two positional
  arguments, flatten to the same key. For \<^verbatim>\<open>def f(a, b=None): return (a, b)\<close> the
  wrapper then answers \<^verbatim>\<open>f(1, 2)\<close> with the value cached for \<^verbatim>\<open>f((1, 2))\<close>, which is not
  the value the callable returns for it, and does not call it.
\<close>

theorem params_flat_collision:
  "params_flat [PyTuple [PyInt 1, PyInt 2]] [] = params_flat [PyInt 1, PyInt 2] [] \<and>
   [PyTuple [PyInt 1, PyInt 2]] \<noteq> [PyInt 1, PyInt 2] \<and>
   fst (callable_cached_call pair_or_default
     (snd (callable_cached_call pair_or_default (cache_init 0) [PyTuple [PyInt 1, PyInt 2]] []))
     [PyInt 1, PyInt 2] []) = Returned (PyTuple [PyTuple [PyInt 1, PyInt 2], PyNone]) \<and>
   fst (pair_or_default 0 [PyInt 1, PyInt 2] []) = FReturn (PyTuple [PyInt 1, PyInt 2]) \<and>
   func_calls (snd (callable_cached_call pair_or_default
     (snd (callable_cached_call pair_or_default (cache_init 0) [PyTuple [PyInt 1, PyInt 2]] []))
     [PyInt 1, PyInt 2] [])) = 1"
  by (simp add: callable_cached_call_def pair_or_default_def cache_init_def params_flat_def
      dict_get_def Let_def SENTINEL_def)

section \<open>Properties of the scope registry\<close>

subsection \<open>A concrete environment\<close>

text \<open>
  An environment and a few classes for concrete runs: names made of a fixed prefix and the
  decimal object identifier, a hash that adds the identifiers of the classes of a tuple
  (so that distinct tuples collide, as distinct tuples can under any hash), and
  \<^verbatim>\<open>tuple(set(t))\<close> listing the items in the order of first occurrence.
\<close>

definition example_scope_env :: scope_env where
  "example_scope_env =
     \<lparr>TYPISTRY_HINT_NAME_TUPLE_PREFIX = ''+'',
      ARG_NAME_TYPISTRY = ''__beartypistry'',
      CODE_HINT_REF_TYPE_BASENAME_PLACEHOLDER_PREFIX = ''@['',
      CODE_HINT_REF_TYPE_BASENAME_PLACEHOLDER_SUFFIX = '']!'',
      attr_name_of_id = (\<lambda>n. ''__beartype_object_'' @ str_of_nat n),
      hash_types = (\<lambda>cs. sum_list (map (\<lambda>c. int (cls_id c)) cs)),
      str_of_hash = (\<lambda>h. (if h < 0 then ''-'' else []) @ str_of_nat (nat \<bar>h\<bar>)),
      tuple_of_set = remdups,
      get_hint_forwardref_code = (\<lambda>name. ''__beartypistry['' @ name @ '']'')\<rparr>"

definition scope_empty :: scope_state where
  "scope_empty =
     \<lparr>func_scope = Map.empty, bear_typistry = Map.empty, set_store = (\<lambda>a. {}), next_id = 100\<rparr>"

definition cls_int :: pycls where
  "cls_int = \<lparr>cls_id = 1, cls_basename = ''int'', cls_kind = BuiltinType\<rparr>"

definition cls_str :: pycls where
  "cls_str = \<lparr>cls_id = 4, cls_basename = ''str'', cls_kind = BuiltinType\<rparr>"

definition cls_user_a :: pycls where
  "cls_user_a = \<lparr>cls_id = 2, cls_basename = ''Apple'', cls_kind = PlainType\<rparr>"



subsection \<open>What a call registers\<close>






subsection \<open>Auxiliary facts\<close>











subsection \<open>Deduplication\<close>




subsection \<open>Builtin types\<close>

text \<open>
  Claim C6. For a builtin type, \<^verbatim>\<open>add_func_scope_type\<close> returns the unqualified basename
  of the type and leaves the scope, and everything else, as it was.
\<close>

theorem builtin_shortcut:
  "is_type_builtin cls \<Longrightarrow>
   add_func_scope_type env cls st = (Inr (get_object_type_basename cls), st)"
  by (simp add: add_func_scope_type_def is_type_builtin_def is_type_isinstanceable_def)

text \<open>
  The builtin type \<^verbatim>\<open>int\<close>.
\<close>

theorem builtin_shortcut_witness:
  "is_type_builtin cls_int \<and>
   add_func_scope_type example_scope_env cls_int scope_empty = (Inr ''int'', scope_empty)"
proof -
  have b: "is_type_builtin cls_int" by (simp add: is_type_builtin_def cls_int_def)
  from builtin_shortcut [OF b, of example_scope_env scope_empty] b
  show ?thesis by (simp add: get_object_type_basename_def cls_int_def)
qed

subsection \<open>Tuples found in the beartypistry\<close>



subsection \<open>Forward references\<close>



text \<open>
  Claim C9. Passed the address of a set and a classname without a dot, the function
  returns that same address, and the only change to the state is that the set at that
  address has gained the classname: the caller's set is changed in place, no set is
  created, and the returned value is the caller's set.
\<close>

theorem forwardref_set_aliased:
  "CHR ''.'' \<notin> set name \<Longrightarrow>
   express_func_scope_type_forwardref env (ForwardRef name) (Some a) st =
     (Inr (CODE_HINT_REF_TYPE_BASENAME_PLACEHOLDER_PREFIX env @ name @
           CODE_HINT_REF_TYPE_BASENAME_PLACEHOLDER_SUFFIX env, Some a),
      st\<lparr>set_store := (set_store st)(a := insert name (set_store st a))\<rparr>)"
  by (simp add: express_func_scope_type_forwardref_def Let_def)

text \<open>
  The relative name \<^verbatim>\<open>Thing\<close> added to the set at address 7, which held
  \<^verbatim>\<open>Other\<close>.
\<close>

theorem forwardref_set_aliased_witness:
  "CHR ''.'' \<notin> set ''Thing'' \<and>
   express_func_scope_type_forwardref example_scope_env (ForwardRef ''Thing'') (Some 7)
       (scope_empty\<lparr>set_store := (\<lambda>a. {})(7 := {''Other''})\<rparr>) =
     (Inr (''@[Thing]!'', Some 7),
      scope_empty\<lparr>set_store := (\<lambda>a. {})(7 := {''Thing'', ''Other''})\<rparr>)"
proof -
  have r: "CHR ''.'' \<notin> set ''Thing''" by simp
  from forwardref_set_aliased [OF r, of example_scope_env 7
      "scope_empty\<lparr>set_store := (\<lambda>a. {})(7 := {''Other''})\<rparr>"] r
  show ?thesis by (simp add: example_scope_env_def scope_empty_def)
qed

section \<open>Properties of the code generator\<close>

subsection \<open>A concrete environment\<close>

text \<open>
  Snippets, constants and helpers for concrete runs, in the shape of those of the
  \<^verbatim>\<open>_pepsnip\<close> module but without line breaks: the union prefix is an opening
  parenthesis, the union suffix closes it, each union argument ends in \<^verbatim>\<open> or\<close>, the
  deferred format replaces the \<^verbatim>\<open>{indent_curr}\<close> field, a placeholder is \<^verbatim>\<open>@[n)!\<close>, a
  registered class is written by its basename and a registered tuple by its items, and a
  set lists its items in the order of first insertion. \<^verbatim>\<open>repr\<close> writes a hint as
  \<^verbatim>\<open>typing\<close> does.
\<close>

fun str_join :: "string \<Rightarrow> string list \<Rightarrow> string" where
  "str_join sep [] = []"
| "str_join sep [x] = x"
| "str_join sep (x # y # ys) = x @ sep @ str_join sep (y # ys)"

fun example_repr :: "hint \<Rightarrow> string" where
  "example_repr (HintType c) = cls_basename c"
| "example_repr (HintOther n) = ''<object>''"
| "example_repr (HintPep a args) =
     (case attr_kind a of
        UnionAttr \<Rightarrow> ''typing.Union''
      | SequenceStandardAttr \<Rightarrow> ''typing.List''
      | OtherAttr \<Rightarrow> ''typing.Hashable'') @
     (if args = [] then [] else ''['' @ str_join '', '' (map example_repr args) @ '']'')"

definition cls_object :: pycls where
  "cls_object = \<lparr>cls_id = 5, cls_basename = ''object'', cls_kind = BuiltinType\<rparr>"

definition cls_list :: pycls where
  "cls_list = \<lparr>cls_id = 6, cls_basename = ''list'', cls_kind = BuiltinType\<rparr>"

definition hint_any :: hint where
  "hint_any = HintPep (TypingAttr OtherAttr True None) []"

definition attr_union :: typing_attr where
  "attr_union = TypingAttr UnionAttr True None"

definition attr_list :: typing_attr where
  "attr_list = TypingAttr SequenceStandardAttr True (Some cls_list)"

definition example_pep_env :: pep_env where
  "example_pep_env =
     \<lparr>SIZE_BIG = 3,
      EXCEPTION_CACHED_PLACEHOLDER = ''$%ROOT_PITH_LABEL/~'',
      hint_repr = example_repr,
      HINTS_IGNORABLE = {hint_any, HintType cls_object},
      is_hint_pep_supported = (\<lambda>h. True),
      CODE_INDENT_1 = ''  '',
      CODE_INDENT_2 = ''    '',
      PEP_CODE_PITH_ROOT_EXPR = ''pith'',
      PEP_CODE_CHECK_HINT_ROOT_format = (\<lambda>ph. ''if not '' @ ph @ '': raise''),
      PEP_CODE_CHECK_HINT_NONPEP_TYPE_format =
        (\<lambda>pith expr. ''isinstance('' @ pith @ '', '' @ expr @ '')''),
      PEP_CODE_CHECK_HINT_SEQUENCE_STANDARD_format =
        (\<lambda>ind pith expr ph. ''(isinstance('' @ pith @ '', '' @ expr @ '') and '' @ ph @ '')''),
      PEP_CODE_CHECK_HINT_SEQUENCE_STANDARD_PITH_CHILD_EXPR_format = (\<lambda>pith. pith @ ''[i]''),
      PEP_CODE_CHECK_HINT_UNION_PREFIX = ''('',
      PEP_CODE_CHECK_HINT_UNION_SUFFIX = ''{indent_curr})'',
      PEP_CODE_CHECK_HINT_UNION_ARG_NONPEP_format =
        (\<lambda>pith expr. ''{indent_curr}isinstance('' @ pith @ '', '' @ expr @ '') or''),
      PEP_CODE_CHECK_HINT_UNION_ARG_PEP_format = (\<lambda>ph. ''{indent_curr}'' @ ph @ '' or''),
      format_indent_curr = (\<lambda>template ind. Inr (str_replace ''{indent_curr}'' ind template)),
      pep_hint_placeholder = (\<lambda>n. ''@['' @ str_of_nat n @ '')!''),
      register_typistry_type = (\<lambda>c. Inr (cls_basename c)),
      register_typistry_tuple =
        (\<lambda>hs u. Inr (''('' @ str_join '', '' (map example_repr hs) @ '')'')),
      set_iter = remdups\<rparr>"


definition data0 :: beartype_data where
  "data0 = \<lparr>pep_hint_placeholder_id = 0, needs_random_int = False\<rparr>"


definition hint_union_three :: hint where
  "hint_union_three =
     HintPep attr_union
       [HintPep attr_list [HintType cls_int], HintPep attr_list [HintType cls_str],
        HintPep attr_list [HintType cls_user_a]]"

definition hint_list_int :: hint where
  "hint_list_int = HintPep attr_list [HintType cls_int]"


definition capacity_message :: string where
  "capacity_message =
     ''$%ROOT_PITH_LABEL/~ typing.Union[typing.List[int], typing.List[str], '' @
     ''typing.List[Apple]] contains more than 2 '' @ [CHR 0x22] @ ''typing'' @ [CHR 0x22] @
     '' types.''"

subsection \<open>Auxiliary definitions\<close>


text \<open>
  The state after exactly \<open>n\<close> iterations of the loop, when the loop runs that long
  without raising.
\<close>

fun bfs_steps :: "pep_env \<Rightarrow> hint \<Rightarrow> nat \<Rightarrow> bfs_state \<Rightarrow> bfs_state option" where
  "bfs_steps env hint_root 0 st = Some st"
| "bfs_steps env hint_root (Suc n) st =
     (if hints_meta_index_curr st \<le> hints_meta_index_last st then
        case visit_step env hint_root st of
          Inl e \<Rightarrow> None
        | Inr st' \<Rightarrow> bfs_steps env hint_root n st'
      else None)"

definition is_Inr :: "'a + 'b \<Rightarrow> bool" where
  "is_Inr r = (case r of Inl a \<Rightarrow> False | Inr b \<Rightarrow> True)"

text \<open>
  The current hint is one whose children the generator is about to enqueue past the
  capacity: a supported, unignorable union whose first test was generated and whose set
  of PEP-compliant arguments does not fit after the last index (line 1100), or a
  supported, unignorable standard sequence whose origin type was registered and whose
  unignorable argument does not fit (line 1245).
\<close>

definition enqueue_overflows :: "pep_env \<Rightarrow> hint_meta \<Rightarrow> bfs_state \<Rightarrow> bool" where
  "enqueue_overflows env hint_curr_meta st =
     (case meta_hint hint_curr_meta of
        HintPep hint_curr_attr hint_childs \<Rightarrow>
          is_hint_pep_supported env (meta_hint hint_curr_meta) \<and>
          meta_hint hint_curr_meta \<notin> HINTS_IGNORABLE env \<and>
          attr_supported hint_curr_attr \<and>
          (if attr_kind hint_curr_attr = UnionAttr then
             hint_childs \<noteq> [] \<and>
             is_Inr (union_code_nonpep env (meta_pith_expr hint_curr_meta)
                       (union_childs_nonpep env hint_childs)
                       (PEP_CODE_CHECK_HINT_UNION_PREFIX env)) \<and>
             union_childs_pep env hint_childs \<noteq> [] \<and>
             SIZE_BIG env \<le>
               hints_meta_index_last st + length (remdups (union_childs_pep env hint_childs))
           else
             attr_kind hint_curr_attr = SequenceStandardAttr \<and>
             length hint_childs = 1 \<and>
             is_Inr (register_type_origin env hint_curr_attr) \<and>
             hd hint_childs \<notin> HINTS_IGNORABLE env \<and>
             SIZE_BIG env \<le> hints_meta_index_last st + 1)
      | HintType cls \<Rightarrow> False
      | HintOther n \<Rightarrow> False)"


subsection \<open>The code of a union\<close>









subsection \<open>The capacity of the fixed list\<close>

lemma bfs_steps_loop:
  "bfs_steps env hint_root n st = Some st' \<Longrightarrow>
   bfs_loop env hint_root st = bfs_loop env hint_root st'"
proof (induction n arbitrary: st)
  case 0
  then show ?case by simp
next
  case (Suc n)
  from Suc.prems obtain st1 where le: "hints_meta_index_curr st \<le> hints_meta_index_last st"
    and step: "visit_step env hint_root st = Inr st1"
    and rest: "bfs_steps env hint_root n st1 = Some st'"
    by (auto split: if_splits sum.splits)
  from le step have "bfs_loop env hint_root st = bfs_loop env hint_root st1"
    by (subst bfs_loop.simps) simp
  with Suc.IH [OF rest] show ?case by simp
qed

lemma bfs_steps_length:
  "bfs_steps env hint_root n st = Some st' \<Longrightarrow> length (hints_meta st') = length (hints_meta st)"
proof (induction n arbitrary: st)
  case 0
  then show ?case by simp
next
  case (Suc n)
  from Suc.prems obtain st1 where step: "visit_step env hint_root st = Inr st1"
    and rest: "bfs_steps env hint_root n st1 = Some st'"
    by (auto split: if_splits sum.splits)
  from Suc.IH [OF rest] visit_step_bound(1) [OF step] show ?case by simp
qed

lemma visit_hint_overflow:
  assumes "enqueue_overflows env m st"
  shows "visit_hint env hint_root m st = Inl (capacity_error env hint_root)"
proof -
  from assms obtain a childs where h: "meta_hint m = HintPep a childs"
    by (auto simp: enqueue_overflows_def split: hint.splits)
  show ?thesis
  proof (cases "attr_kind a = UnionAttr")
    case True
    with assms h obtain code1 where
      "union_code_nonpep env (meta_pith_expr m) (union_childs_nonpep env childs)
         (PEP_CODE_CHECK_HINT_UNION_PREFIX env) = Inr code1"
      by (auto simp: enqueue_overflows_def is_Inr_def split: sum.splits)
    with assms h True show ?thesis
      by (simp add: enqueue_overflows_def visit_hint_def visit_union_def union_code_pep_def
          Let_def)
  next
    case False
    with assms h obtain expr where
      "register_type_origin env a = Inr expr"
      by (auto simp: enqueue_overflows_def is_Inr_def split: sum.splits)
    moreover from this have "attr_type_origin a \<noteq> None"
      by (auto simp: register_type_origin_def split: option.splits)
    ultimately show ?thesis using assms h False
      by (auto simp: enqueue_overflows_def visit_hint_def visit_sequence_def Let_def)
  qed
qed

lemma bfs_loop_overflow:
  assumes "hints_meta_index_curr st \<le> hints_meta_index_last st"
    and "hints_meta_index_curr st < length (hints_meta st)"
    and "hints_meta st ! hints_meta_index_curr st = Some m"
    and "enqueue_overflows env m st"
  shows "bfs_loop env hint_root st = Inl (capacity_error env hint_root)"
  using assms visit_hint_overflow [OF assms(4), of hint_root]
  by (subst bfs_loop.simps) (simp add: visit_step_def)

text \<open>
  Claim C4, as the code has it. Whenever the search, after any number of iterations, is
  at a hint whose children it would enqueue past the capacity \<^verbatim>\<open>SIZE_BIG\<close>, the generator
  raises: it returns no code. The message of the exception is the label of the root hint
  (the cached exception placeholder and the representation of the root hint), the words
  \<^verbatim>\<open>contains more than\<close>, the capacity and the words \<^verbatim>\<open>"typing" types.\<close>; it holds the
  limit and no count of the hints found.
\<close>

theorem capacity_overflow_raises:
  assumes reach: "bfs_steps env hint_root n (bfs_init env data hint_root) = Some st"
    and curr: "hints_meta_index_curr st \<le> hints_meta_index_last st"
    and range: "hints_meta_index_curr st < length (hints_meta st)"
    and meta: "hints_meta st ! hints_meta_index_curr st = Some hint_curr_meta"
    and over: "enqueue_overflows env hint_curr_meta st"
  shows "pep_code_check_hint env data hint_root =
         Inl (BeartypeDecorHintPepException
                (EXCEPTION_CACHED_PLACEHOLDER env @ '' '' @ hint_repr env hint_root @
                 '' contains more than '' @ str_of_nat (SIZE_BIG env) @ '' '' @
                 [CHR 0x22] @ ''typing'' @ [CHR 0x22] @ '' types.''))"
proof -
  from bfs_steps_length [OF reach] range have "SIZE_BIG env \<noteq> 0"
    by (auto simp: bfs_init_def Let_def)
  moreover from bfs_steps_loop [OF reach] bfs_loop_overflow [OF curr range meta over]
  have "bfs_loop env hint_root (bfs_init env data hint_root) =
      Inl (capacity_error env hint_root)" by simp
  ultimately show ?thesis
    by (simp add: pep_code_check_hint_def capacity_error_def hint_root_label_def)
qed

text \<open>
  A union of three PEP-compliant arguments under a capacity of 2, and a list of integers
  under a capacity of 1.
\<close>

theorem capacity_overflow_raises_witness:
  "bfs_steps (example_pep_env\<lparr>SIZE_BIG := 2\<rparr>) hint_union_three 0
     (bfs_init (example_pep_env\<lparr>SIZE_BIG := 2\<rparr>) data0 hint_union_three) =
     Some (bfs_init (example_pep_env\<lparr>SIZE_BIG := 2\<rparr>) data0 hint_union_three) \<and>
   enqueue_overflows (example_pep_env\<lparr>SIZE_BIG := 2\<rparr>)
     \<lparr>meta_hint = hint_union_three, meta_placeholder = ''@[0)!'',
      meta_pith_expr = ''pith'', meta_indent = ''    ''\<rparr>
     (bfs_init (example_pep_env\<lparr>SIZE_BIG := 2\<rparr>) data0 hint_union_three) \<and>
   pep_code_check_hint (example_pep_env\<lparr>SIZE_BIG := 2\<rparr>) data0 hint_union_three =
     Inl (BeartypeDecorHintPepException capacity_message) \<and>
   enqueue_overflows (example_pep_env\<lparr>SIZE_BIG := 1\<rparr>)
     \<lparr>meta_hint = hint_list_int, meta_placeholder = ''@[0)!'',
      meta_pith_expr = ''pith'', meta_indent = ''    ''\<rparr>
     (bfs_init (example_pep_env\<lparr>SIZE_BIG := 1\<rparr>) data0 hint_list_int) \<and>
   pep_code_check_hint (example_pep_env\<lparr>SIZE_BIG := 1\<rparr>) data0 hint_list_int =
     Inl (BeartypeDecorHintPepException
       (''$%ROOT_PITH_LABEL/~ typing.List[int] contains more than 1 '' @ [CHR 0x22] @
        ''typing'' @ [CHR 0x22] @ '' types.''))"
proof -
  let ?e2 = "example_pep_env\<lparr>SIZE_BIG := 2\<rparr>"
  let ?e1 = "example_pep_env\<lparr>SIZE_BIG := 1\<rparr>"
  let ?m2 = "\<lparr>meta_hint = hint_union_three, meta_placeholder = ''@[0)!'',
      meta_pith_expr = ''pith'', meta_indent = ''    ''\<rparr>"
  let ?m1 = "\<lparr>meta_hint = hint_list_int, meta_placeholder = ''@[0)!'',
      meta_pith_expr = ''pith'', meta_indent = ''    ''\<rparr>"
  let ?s2 = "bfs_init ?e2 data0 hint_union_three"
  let ?s1 = "bfs_init ?e1 data0 hint_list_int"
  have r2: "bfs_steps ?e2 hint_union_three 0 ?s2 = Some ?s2" by simp
  have c2: "hints_meta_index_curr ?s2 \<le> hints_meta_index_last ?s2" by code_simp
  have g2: "hints_meta_index_curr ?s2 < length (hints_meta ?s2)" by code_simp
  have m2: "hints_meta ?s2 ! hints_meta_index_curr ?s2 = Some ?m2" by code_simp
  have o2: "enqueue_overflows ?e2 ?m2 ?s2" by code_simp
  have msg2: "EXCEPTION_CACHED_PLACEHOLDER ?e2 @ '' '' @ hint_repr ?e2 hint_union_three @
      '' contains more than '' @ str_of_nat (SIZE_BIG ?e2) @ '' '' @
      [CHR 0x22] @ ''typing'' @ [CHR 0x22] @ '' types.'' = capacity_message" by code_simp
  have r1: "bfs_steps ?e1 hint_list_int 0 ?s1 = Some ?s1" by simp
  have c1: "hints_meta_index_curr ?s1 \<le> hints_meta_index_last ?s1" by code_simp
  have g1: "hints_meta_index_curr ?s1 < length (hints_meta ?s1)" by code_simp
  have m1: "hints_meta ?s1 ! hints_meta_index_curr ?s1 = Some ?m1" by code_simp
  have o1: "enqueue_overflows ?e1 ?m1 ?s1" by code_simp
  have msg1: "EXCEPTION_CACHED_PLACEHOLDER ?e1 @ '' '' @ hint_repr ?e1 hint_list_int @
      '' contains more than '' @ str_of_nat (SIZE_BIG ?e1) @ '' '' @
      [CHR 0x22] @ ''typing'' @ [CHR 0x22] @ '' types.'' =
      ''$%ROOT_PITH_LABEL/~ typing.List[int] contains more than 1 '' @ [CHR 0x22] @
        ''typing'' @ [CHR 0x22] @ '' types.''" by code_simp
  note a = capacity_overflow_raises [OF r2 c2 g2 m2 o2, unfolded msg2]
  note b = capacity_overflow_raises [OF r1 c1 g1 m1 o1, unfolded msg1]
  from r2 o2 a o1 b show ?thesis by blast
qed

text \<open>
  Claim C4 as it is stated fails in its last part: for the union of three PEP-compliant
  arguments under a capacity of 2 the message names the limit 2, and neither the 3
  arguments found nor the 4 hints found with the root appear in it.
\<close>

theorem capacity_message_counterexample:
  "pep_code_check_hint (example_pep_env\<lparr>SIZE_BIG := 2\<rparr>) data0 hint_union_three =
     Inl (BeartypeDecorHintPepException capacity_message) \<and>
   length (union_childs_pep (example_pep_env\<lparr>SIZE_BIG := 2\<rparr>)
     [HintPep attr_list [HintType cls_int], HintPep attr_list [HintType cls_str],
      HintPep attr_list [HintType cls_user_a]]) = 3 \<and>
   str_contains ''2'' capacity_message \<and>
   \<not> str_contains ''3'' capacity_message \<and>
   \<not> str_contains ''4'' capacity_message"
  by code_simp

end
